theory Spec2Isabelle
  imports Main "HOL-Library.Char_ord" "HOL-Library.List_Lexorder"
begin

section \<open>Scheduled-task reconciliation (core/tasks.py, sync_scheduled_tasks)\<close>

text \<open>
  The development embeds the Celery task \<open>sync_scheduled_tasks\<close> of
  \<open>api/tacticalrmm/core/tasks.py\<close>: the planning loop that turns the agents' tasks into
  a list of action tuples, the coroutine \<open>_handle_task_on_agent\<close> that sends one action
  to its agent and records the outcome, and \<open>_run\<close>, which connects to NATS and gathers
  the coroutines. Everything the function reads from outside (the lock, the agent query,
  the NATS replies, the order in which the event loop resumes the coroutines) is a field
  of an environment record; everything it writes (database rows, log lines, NATS
  requests) is part of an explicit world value that is passed along.
\<close>

subsection \<open>Data model\<close>

text \<open>Constants of \<open>tacticalrmm.constants\<close>: \<open>TaskSyncStatus\<close>, the values of
  \<open>Agent.status\<close>, and \<open>TaskType\<close> (only \<open>ONBOARDING\<close> is told apart by the code).\<close>

datatype sync_status = INITIAL | SYNCED | NOT_SYNCED | PENDING_DELETION

datatype agent_status = ONLINE | OVERDUE | OFFLINE

datatype task_type = ONBOARDING | ORDINARY

text \<open>The exceptions that can leave the function.\<close>

datatype exn = DoesNotExist | DatabaseError | InvalidVersion

record agent =
  agent_pk :: nat
  agent_id :: string
  hostname :: string
  version :: string
  status :: agent_status
  is_posix :: bool

text \<open>A \<open>TaskResult\<close> row. Besides \<open>sync_status\<close> the Django model has the columns of the
  last run (return code, output, times); \<open>other_columns\<close> stands for all of them.\<close>

record task_result =
  sync_status :: sync_status
  other_columns :: string

text \<open>An \<open>AutomatedTask\<close> row. \<open>task_definition\<close> stands for the trigger and action
  columns the remote descriptor is generated from; \<open>policy\<close> and \<open>task_agent\<close> are the
  two nullable foreign keys (a task belongs to a policy or to one agent).\<close>

record automated_task =
  task_pk :: nat
  task_name :: string
  win_task_name :: string
  task_type :: task_type
  task_definition :: string
  policy :: "nat option"
  task_agent :: "nat option"

text \<open>The payload of a NATS request: the empty dict of a delete action, a task
  descriptor, or the \<open>{"name": ...}\<close> dict of \<open>delschedtask\<close>.\<close>

datatype payload =
  EmptyPayload
  | TaskDescriptor string task_type string
  | NameOnly string

text \<open>Modelled from the spec: \<open>AutomatedTask.generate_nats_task_payload\<close>
  (autotasks/models.py, not part of the sources at hand). The spec calls it a pure
  function of the task's current definition; the descriptor carries the native task name,
  the task type and the definition.\<close>

definition generate_nats_task_payload :: "automated_task \<Rightarrow> payload" where
  "generate_nats_task_payload task =
     TaskDescriptor (win_task_name task) (task_type task) (task_definition task)"

text \<open>The tuple appended to \<open>actions\<close>:
  (0: action, 1: task.id, 2: agent object, 3: nats task payload, 4: agent_id,
  5: agent hostname). The agent object is represented by its primary key; it is \<open>None\<close>
  when \<open>task.agent\<close> is null. Where the tuple is taken apart, its last two components are
  called \<open>subject\<close> and \<open>host\<close>.\<close>

type_synonym action_item = "string \<times> nat \<times> nat option \<times> payload \<times> string \<times> string"

subsection \<open>Version comparison (packaging.version)\<close>

text \<open>
  \<open>pyver.parse\<close> is \<open>packaging.version.parse\<close>. The model covers the versions agents
  report, a release segment \<open>N(.N)*\<close> of decimal numbers; for these the comparison key of
  \<open>packaging\<close> is the release tuple with trailing zeros removed, compared as Python
  compares tuples. Any other string is rejected with \<open>InvalidVersion\<close> (versions with
  epoch, pre-, post-, dev- or local segments are outside the model).
\<close>

definition digit_of :: "char \<Rightarrow> nat option" where
  "digit_of = map_of
     [(CHR ''0'', 0), (CHR ''1'', 1), (CHR ''2'', 2), (CHR ''3'', 3), (CHR ''4'', 4),
      (CHR ''5'', 5), (CHR ''6'', 6), (CHR ''7'', 7), (CHR ''8'', 8), (CHR ''9'', 9)]"

fun int_of_digits :: "nat \<Rightarrow> string \<Rightarrow> nat option" where
  "int_of_digits acc [] = Some acc"
| "int_of_digits acc (c # cs) =
     (case digit_of c of
        None \<Rightarrow> None
      | Some d \<Rightarrow> int_of_digits (10 * acc + d) cs)"

definition parse_segment :: "string \<Rightarrow> nat option" where
  "parse_segment s = (if s = [] then None else int_of_digits 0 s)"

text \<open>\<open>parse_release cur s\<close> reads the segments of \<open>s\<close>; \<open>cur\<close> holds the characters of
  the segment being read.\<close>

fun parse_release :: "string \<Rightarrow> string \<Rightarrow> nat list option" where
  "parse_release cur [] =
     (case parse_segment cur of None \<Rightarrow> None | Some n \<Rightarrow> Some [n])"
| "parse_release cur (c # cs) =
     (if c = CHR ''.''
      then (case parse_segment cur of
              None \<Rightarrow> None
            | Some n \<Rightarrow>
                (case parse_release [] cs of None \<Rightarrow> None | Some ns \<Rightarrow> Some (n # ns)))
      else parse_release (cur @ [c]) cs)"

definition pyver_parse :: "string \<Rightarrow> nat list option" where
  "pyver_parse s = parse_release [] s"

definition release_key :: "nat list \<Rightarrow> nat list" where
  "release_key r = rev (dropWhile (\<lambda>n. n = 0) (rev r))"

text \<open>Python's \<open><\<close> on tuples of integers.\<close>

fun tuple_less :: "nat list \<Rightarrow> nat list \<Rightarrow> bool" where
  "tuple_less [] [] = False"
| "tuple_less [] (y # ys) = True"
| "tuple_less (x # xs) [] = False"
| "tuple_less (x # xs) (y # ys) = (x < y \<or> (x = y \<and> tuple_less xs ys))"

text \<open>\<open>pyver.parse(a) < pyver.parse(b)\<close> and \<open>pyver.parse(a) >= pyver.parse(b)\<close>.\<close>

definition pyver_lt :: "string \<Rightarrow> string \<Rightarrow> exn + bool" where
  "pyver_lt a b =
     (case pyver_parse a of
        None \<Rightarrow> Inl InvalidVersion
      | Some x \<Rightarrow>
          (case pyver_parse b of
             None \<Rightarrow> Inl InvalidVersion
           | Some y \<Rightarrow> Inr (tuple_less (release_key x) (release_key y))))"

definition pyver_ge :: "string \<Rightarrow> string \<Rightarrow> exn + bool" where
  "pyver_ge a b =
     (case pyver_parse a of
        None \<Rightarrow> Inl InvalidVersion
      | Some x \<Rightarrow>
          (case pyver_parse b of
             None \<Rightarrow> Inl InvalidVersion
           | Some y \<Rightarrow> Inr (\<not> tuple_less (release_key x) (release_key y))))"

subsection \<open>The planning loop (lines 176 to 238)\<close>

text \<open>
  \<open>agent.get_tasks_with_policies()\<close> (agents/models.py) returns the agent's own and
  policy tasks, each with the attribute \<open>task_result\<close> set to the agent's \<open>TaskResult\<close>
  for the task or to the empty dict. A planned task is the pair of the task and that
  attribute, \<open>None\<close> for the empty dict.
\<close>

type_synonym planned_task = "automated_task \<times> task_result option"

text \<open>The \<open>if\<close>/\<open>elif\<close> chain of lines 196 to 238 for one task of one agent; a status
  of \<open>SYNCED\<close> matches no branch and appends nothing.\<close>

definition classify :: "agent \<Rightarrow> planned_task \<Rightarrow> action_item list" where
  "classify agent pt =
     (let task = fst pt;
          agent_obj = (if policy task \<noteq> None then Some (agent_pk agent) else task_agent task)
      in case snd pt of
           None \<Rightarrow>
             [(''create'', task_pk task, agent_obj, generate_nats_task_payload task,
               agent_id agent, hostname agent)]
         | Some tr \<Rightarrow>
             (if sync_status tr = INITIAL then
                [(''create'', task_pk task, agent_obj, generate_nats_task_payload task,
                  agent_id agent, hostname agent)]
              else if sync_status tr = PENDING_DELETION then
                [(''delete'', task_pk task, agent_obj, EmptyPayload,
                  agent_id agent, hostname agent)]
              else if sync_status tr = NOT_SYNCED then
                [(''modify'', task_pk task, agent_obj, generate_nats_task_payload task,
                  agent_id agent, hostname agent)]
              else []))"

text \<open>One iteration of the inner loop: the onboarding gate of lines 190 to 193, then the
  classification.\<close>

definition plan_task :: "agent \<Rightarrow> planned_task \<Rightarrow> exn + action_item list" where
  "plan_task agent pt =
     (if task_type (fst pt) = ONBOARDING then
        (case pyver_lt (version agent) ''2.6.0'' of
           Inl e \<Rightarrow> Inl e
         | Inr lt \<Rightarrow> if lt then Inr [] else Inr (classify agent pt))
      else Inr (classify agent pt))"

fun plan_tasks :: "agent \<Rightarrow> planned_task list \<Rightarrow> exn + action_item list" where
  "plan_tasks agent [] = Inr []"
| "plan_tasks agent (pt # pts) =
     (case plan_task agent pt of
        Inl e \<Rightarrow> Inl e
      | Inr xs \<Rightarrow>
          (case plan_tasks agent pts of
             Inl e \<Rightarrow> Inl e
           | Inr ys \<Rightarrow> Inr (xs @ ys)))"

text \<open>The condition of lines 179 to 183. Python's \<open>and\<close> evaluates from the left and
  stops at the first false operand, so the version of a POSIX agent is never parsed.\<close>

definition agent_eligible :: "agent \<Rightarrow> exn + bool" where
  "agent_eligible agent =
     (if is_posix agent then Inr False
      else (case pyver_ge (version agent) ''1.6.0'' of
              Inl e \<Rightarrow> Inl e
            | Inr ge \<Rightarrow> Inr (ge \<and> status agent = ONLINE)))"

text \<open>The outer loop over \<open>_get_agent_qs()\<close>; each agent comes with the result of its
  \<open>get_tasks_with_policies()\<close>.\<close>

fun plan_agents :: "(agent \<times> planned_task list) list \<Rightarrow> exn + action_item list" where
  "plan_agents [] = Inr []"
| "plan_agents ((agent, pts) # rest) =
     (case agent_eligible agent of
        Inl e \<Rightarrow> Inl e
      | Inr ok \<Rightarrow>
          (case (if ok then plan_tasks agent pts else Inr []) of
             Inl e \<Rightarrow> Inl e
           | Inr xs \<Rightarrow>
               (case plan_agents rest of
                  Inl e \<Rightarrow> Inl e
                | Inr ys \<Rightarrow> Inr (xs @ ys))))"

subsection \<open>The world the dispatcher acts on\<close>

text \<open>The dicts sent with \<open>a_nats_cmd\<close>.\<close>

record nats_data =
  func :: string
  schedtaskpayload :: payload

text \<open>What the function does to the outside, newest first in \<open>trace\<close>: iterating the
  agent query, connecting to NATS, a request to an agent's subject (with its timeout),
  log lines, and the closing \<open>flush\<close> and \<open>close\<close>.\<close>

datatype event =
  QueryAgents
  | Connect
  | Request string nats_data nat
  | LogDebug payload
  | LogInfo string
  | LogError string
  | Flush
  | Close

text \<open>The database tables the dispatcher touches, and the trace. A \<open>TaskResult\<close> row is
  identified by its agent and its task, which are unique together.\<close>

record world =
  agents :: "nat \<rightharpoonup> agent"
  tasks :: "nat \<rightharpoonup> automated_task"
  results :: "nat \<times> nat \<rightharpoonup> task_result"
  trace :: "event list"

text \<open>
  Everything the function reads from outside:
  \<^item> \<open>acquired\<close>, what \<open>redis_lock\<close> yields, and \<open>owner\<close>, the value of \<open>self.app.oid\<close>;
  \<^item> \<open>agent_qs\<close>, the agents of \<open>_get_agent_qs()\<close> with their planned tasks;
  \<^item> \<open>connect_error\<close>, \<open>Some\<close> of \<open>str(e)\<close> when \<open>nats.connect\<close> raises;
  \<^item> \<open>reply\<close>, the answer of the agent behind a subject, \<open>None\<close> when none arrives
    within the timeout;
  \<^item> \<open>write_fault\<close>, whether the database refuses the update of a \<open>TaskResult\<close> row;
  \<^item> \<open>resume_order\<close>, the order in which the event loop resumes the coroutines.
\<close>

record env =
  acquired :: bool
  owner :: string
  agent_qs :: "(agent \<times> planned_task list) list"
  connect_error :: "string option"
  reply :: "string \<Rightarrow> nats_data \<Rightarrow> string option"
  write_fault :: "nat \<times> nat \<Rightarrow> bool"
  resume_order :: "nat list"

definition emit :: "event \<Rightarrow> world \<Rightarrow> world" where
  "emit e w = w\<lparr>trace := e # trace w\<rparr>"

subsection \<open>Database operations\<close>

text \<open>\<open>AutomatedTask.objects.aget(id=task_id)\<close>.\<close>

definition aget_task :: "world \<Rightarrow> nat \<Rightarrow> exn + automated_task" where
  "aget_task w tid = (case tasks w tid of None \<Rightarrow> Inl DoesNotExist | Some task \<Rightarrow> Inr task)"

text \<open>\<open>TaskResult.objects.aget(agent=agent, task=task)\<close>; the object fetched is
  represented by the key of its row.\<close>

definition aget_result :: "world \<Rightarrow> nat option \<Rightarrow> automated_task \<Rightarrow> exn + nat \<times> nat" where
  "aget_result w agent task =
     (case agent of
        None \<Rightarrow> Inl DoesNotExist
      | Some a \<Rightarrow>
          (case results w (a, task_pk task) of
             None \<Rightarrow> Inl DoesNotExist
           | Some row \<Rightarrow> Inr (a, task_pk task)))"

text \<open>Modelled from the spec: the \<open>TaskResult\<close> table (autotasks/models.py, not part of
  the sources at hand). A new row starts as \<open>INITIAL\<close> (the spec: no row is equivalent to
  \<open>INITIAL\<close>) with empty run columns; it references an agent and a task, and there is at
  most one row per pair, so the insert is refused when a reference dangles or the row
  exists.\<close>

definition acreate_result ::
  "world \<Rightarrow> nat option \<Rightarrow> automated_task \<Rightarrow> world \<times> (exn + nat \<times> nat)" where
  "acreate_result w agent task =
     (case agent of
        None \<Rightarrow> (w, Inl DatabaseError)
      | Some a \<Rightarrow>
          (if agents w a = None \<or> tasks w (task_pk task) = None
              \<or> results w (a, task_pk task) \<noteq> None
           then (w, Inl DatabaseError)
           else (w\<lparr>results := (results w)((a, task_pk task) \<mapsto>
                       \<lparr>sync_status = INITIAL, other_columns = []\<rparr>)\<rparr>,
                 Inr (a, task_pk task))))"

text \<open>\<open>task_result.sync_status = s\<close> followed by
  \<open>task_result.asave(update_fields=["sync_status"])\<close>: an update of that one column of
  the row. Django raises \<open>DatabaseError\<close> when the update affects no row.\<close>

definition asave_sync_status ::
  "env \<Rightarrow> world \<Rightarrow> nat \<times> nat \<Rightarrow> sync_status \<Rightarrow> world \<times> (exn + unit)" where
  "asave_sync_status env w key s =
     (case results w key of
        None \<Rightarrow> (w, Inl DatabaseError)
      | Some row \<Rightarrow>
          (if write_fault env key then (w, Inl DatabaseError)
           else (w\<lparr>results := (results w)(key \<mapsto> row\<lparr>sync_status := s\<rparr>)\<rparr>, Inr ())))"

text \<open>Modelled from the spec: \<open>task.adelete()\<close>. The spec has the \<open>TaskResult\<close> removed
  together with the task; the rows of the task go with it (the foreign key cascades).\<close>

definition adelete_task :: "world \<Rightarrow> automated_task \<Rightarrow> world" where
  "adelete_task w task =
     w\<lparr>tasks := (tasks w)(task_pk task := None),
       results := (\<lambda>k. if snd k = task_pk task then None else results w k)\<rparr>"

text \<open>Modelled from the spec: \<open>a_nats_cmd\<close> (tacticalrmm/nats_utils.py, not part of the
  sources at hand) answers with a string; a request that times out is a failure, reported
  as the string \<open>timeout\<close>.\<close>

definition a_nats_cmd_result :: "env \<Rightarrow> string \<Rightarrow> nats_data \<Rightarrow> string" where
  "a_nats_cmd_result env sub data =
     (case reply env sub data of None \<Rightarrow> ''timeout'' | Some r \<Rightarrow> r)"

text \<open>Python's \<open>sub in s\<close> on strings.\<close>

fun starts_with :: "string \<Rightarrow> string \<Rightarrow> bool" where
  "starts_with [] s = True"
| "starts_with (x # xs) [] = False"
| "starts_with (x # xs) (c # cs) = (x = c \<and> starts_with xs cs)"

fun str_contains :: "string \<Rightarrow> string \<Rightarrow> bool" where
  "str_contains sub [] = (sub = [])"
| "str_contains sub (c # cs) = (starts_with sub (c # cs) \<or> str_contains sub cs)"

subsection \<open>The coroutine \<open>_handle_task_on_agent\<close> (lines 240 to 301)\<close>

text \<open>
  A coroutine gives up control at each \<open>await\<close>. Its state between two steps names the
  \<open>await\<close> it is suspended at and holds the local variables that are live there:
  \<^item> \<open>Start\<close>: at \<open>AutomatedTask.objects.aget\<close> (line 251);
  \<^item> \<open>FetchResult\<close>: at \<open>TaskResult.objects.aget\<close> (line 253);
  \<^item> \<open>CreateResult\<close>: at \<open>TaskResult.objects.acreate\<close> (line 255);
  \<^item> \<open>AwaitReply\<close>: at \<open>a_nats_cmd\<close> (line 264 or 287), the request being sent;
  \<^item> \<open>Saving\<close>: at \<open>task_result.asave\<close> (line 280 or 293), with the status assigned;
  \<^item> \<open>Deleting\<close>: at \<open>task.adelete\<close> (line 300);
  \<^item> \<open>Done\<close>: returned.
  A step completes the pending operation and runs the code up to the next \<open>await\<close>.
\<close>

datatype coro =
  Start action_item
  | FetchResult action_item automated_task
  | CreateResult action_item automated_task
  | AwaitReply action_item automated_task "nat \<times> nat" nats_data
  | Saving action_item automated_task "nat \<times> nat" sync_status string
  | Deleting action_item automated_task
  | Done

definition unable_msg :: "string \<Rightarrow> string \<Rightarrow> string \<Rightarrow> string \<Rightarrow> string" where
  "unable_msg action tname host r =
     ''Unable to '' @ action @ '' scheduled task '' @ tname @ '' on '' @ host @ '': '' @ r"

definition done_msg :: "string \<Rightarrow> string \<Rightarrow> string \<Rightarrow> string" where
  "done_msg action tname host =
     host @ '' task '' @ tname @ '' was ''
       @ (if action = ''create'' then ''created'' else ''modified'')"

definition deleted_msg :: "string \<Rightarrow> string \<Rightarrow> string" where
  "deleted_msg tname host = host @ '' task '' @ tname @ '' was deleted.''"

text \<open>Lines 257 to 264, or 283 to 287: the request is built and sent.\<close>

definition send_request ::
  "world \<Rightarrow> action_item \<Rightarrow> automated_task \<Rightarrow> nat \<times> nat \<Rightarrow> world \<times> (exn + coro)" where
  "send_request w item task key =
     (case item of (action, task_id, agent, payload, subject, host) \<Rightarrow>
        if action = ''create'' \<or> action = ''modify'' then
          (let nats_data = \<lparr>func = ''schedtask'', schedtaskpayload = payload\<rparr>
           in (emit (Request subject nats_data 10) (emit (LogDebug payload) w),
               Inr (AwaitReply item task key nats_data)))
        else
          (let nats_data = \<lparr>func = ''delschedtask'',
                            schedtaskpayload = NameOnly (win_task_name task)\<rparr>
           in (emit (Request subject nats_data 10) w,
               Inr (AwaitReply item task key nats_data))))"

text \<open>Lines 265 to 278, or 289 to 290 and 299: the reply decides the status to save, or
  that the task is deleted.\<close>

definition on_reply ::
  "env \<Rightarrow> world \<Rightarrow> action_item \<Rightarrow> automated_task \<Rightarrow> nat \<times> nat \<Rightarrow> nats_data
     \<Rightarrow> world \<times> (exn + coro)" where
  "on_reply env w item task key nats_data =
     (case item of (action, task_id, agent, payload, subject, host) \<Rightarrow>
        (let r = a_nats_cmd_result env subject nats_data in
         if action = ''create'' \<or> action = ''modify'' then
           (if r \<noteq> ''ok'' then
              (emit (LogError (unable_msg action (task_name task) host r)) w,
               Inr (Saving item task key
                      (if action = ''create'' then INITIAL else NOT_SYNCED) r))
            else
              (emit (LogInfo (done_msg action (task_name task) host)) w,
               Inr (Saving item task key SYNCED r)))
         else
           (if r \<noteq> ''ok'' \<and> \<not> str_contains ''The system cannot find the file specified'' r
            then (w, Inr (Saving item task key PENDING_DELETION r))
            else (w, Inr (Deleting item task)))))"

text \<open>Line 280, or lines 292 to 297: on the create and modify branch a failing save
  raises; on the delete branch \<open>suppress(DatabaseError)\<close> swallows it and the error line
  is logged afterwards.\<close>

definition on_save ::
  "env \<Rightarrow> world \<Rightarrow> action_item \<Rightarrow> automated_task \<Rightarrow> nat \<times> nat \<Rightarrow> sync_status \<Rightarrow> string
     \<Rightarrow> world \<times> (exn + coro)" where
  "on_save env w item task key s r =
     (case item of (action, task_id, agent, payload, subject, host) \<Rightarrow>
        if action = ''create'' \<or> action = ''modify'' then
          (case asave_sync_status env w key s of
             (w', Inl e) \<Rightarrow> (w', Inl e)
           | (w', Inr u) \<Rightarrow> (w', Inr Done))
        else
          (case asave_sync_status env w key s of
             (w', res) \<Rightarrow>
               (emit (LogError (unable_msg action (task_name task) host r)) w',
                Inr Done)))"

fun step :: "env \<Rightarrow> world \<Rightarrow> coro \<Rightarrow> world \<times> (exn + coro)" where
  "step env w (Start item) =
     (case item of (action, task_id, agent, payload, subject, host) \<Rightarrow>
        (case aget_task w task_id of
           Inl e \<Rightarrow> (w, Inl e)
         | Inr task \<Rightarrow> (w, Inr (FetchResult item task))))"
| "step env w (FetchResult item task) =
     (case item of (action, task_id, agent, payload, subject, host) \<Rightarrow>
        (case aget_result w agent task of
           Inl e \<Rightarrow> (w, Inr (CreateResult item task))
         | Inr key \<Rightarrow> send_request w item task key))"
| "step env w (CreateResult item task) =
     (case item of (action, task_id, agent, payload, subject, host) \<Rightarrow>
        (case acreate_result w agent task of
           (w', Inl e) \<Rightarrow> (w', Inl e)
         | (w', Inr key) \<Rightarrow> send_request w' item task key))"
| "step env w (AwaitReply item task key nats_data) = on_reply env w item task key nats_data"
| "step env w (Saving item task key s r) = on_save env w item task key s r"
| "step env w (Deleting item task) =
     (case item of (action, task_id, agent, payload, subject, host) \<Rightarrow>
        (emit (LogInfo (deleted_msg (task_name task) host)) (adelete_task w task),
         Inr Done))"
| "step env w Done = (w, Inr Done)"

text \<open>How far a coroutine has come; every step moves it forward.\<close>

fun phase :: "coro \<Rightarrow> nat" where
  "phase (Start item) = 0"
| "phase (FetchResult item task) = 1"
| "phase (CreateResult item task) = 2"
| "phase (AwaitReply item task key nats_data) = 3"
| "phase (Saving item task key s r) = 4"
| "phase (Deleting item task) = 4"
| "phase Done = 5"

lemma step_phase:
  assumes "step env w c = (w', Inr c')" and "c \<noteq> Done"
  shows "5 - phase c' < 5 - phase c"
  using assms
  by (cases c)
     (auto simp: send_request_def on_reply_def on_save_def Let_def
           split: prod.splits sum.splits if_splits)

text \<open>The coroutine run without interruption, from any of its states.\<close>

function run_coro :: "env \<Rightarrow> world \<Rightarrow> coro \<Rightarrow> world \<times> (exn + unit)" where
  "run_coro env w c =
     (if c = Done then (w, Inr ())
      else (case step env w c of
              (w', Inl e) \<Rightarrow> (w', Inl e)
            | (w', Inr c') \<Rightarrow> run_coro env w' c'))"
  by pat_completeness auto
termination
  by (relation "measure (\<lambda>(env, w, c). 5 - phase c)") (auto intro: step_phase [OF sym])

declare run_coro.simps [simp del]

definition handle_task_on_agent :: "env \<Rightarrow> world \<Rightarrow> action_item \<Rightarrow> world \<times> (exn + unit)" where
  "handle_task_on_agent env w item = run_coro env w (Start item)"

subsection \<open>\<open>_run\<close> and the task itself (lines 303 to 319, 171 to 175)\<close>

text \<open>
  \<open>asyncio.gather(*tasks)\<close> starts every coroutine and waits for all of them. Without
  \<open>return_exceptions\<close> the first exception a coroutine raises is raised in \<open>_run\<close>, which
  does not catch it; \<open>asyncio.run\<close> then cancels the coroutines still pending and raises
  the exception in the caller. The model takes that cancellation to be immediate: after
  the step that raises, no coroutine takes another step. \<open>advance\<close> resumes the coroutines
  in the given order, one step at a time (an entry that names no pending coroutine is
  skipped), and stops at the first exception; \<open>drain\<close> runs what is still pending to the
  end, in list order, so that every coroutine is run to its end when none raises.
\<close>

fun advance ::
  "env \<Rightarrow> nat list \<Rightarrow> world \<Rightarrow> coro list \<Rightarrow> world \<times> coro list \<times> exn option" where
  "advance env [] w cs = (w, cs, None)"
| "advance env (i # order) w cs =
     (if i < length cs \<and> cs ! i \<noteq> Done then
        (case step env w (cs ! i) of
           (w', Inl e) \<Rightarrow> (w', cs, Some e)
         | (w', Inr c') \<Rightarrow> advance env order w' (cs[i := c']))
      else advance env order w cs)"

fun drain :: "env \<Rightarrow> world \<Rightarrow> coro list \<Rightarrow> world \<times> exn option" where
  "drain env w [] = (w, None)"
| "drain env w (c # cs) =
     (case run_coro env w c of
        (w', Inl e) \<Rightarrow> (w', Some e)
      | (w', Inr u) \<Rightarrow> drain env w' cs)"

definition gather :: "env \<Rightarrow> nat list \<Rightarrow> world \<Rightarrow> coro list \<Rightarrow> world \<times> exn option" where
  "gather env order w cs =
     (case advance env order w cs of
        (w', cs', Some e) \<Rightarrow> (w', Some e)
      | (w', cs', None) \<Rightarrow> drain env w' cs')"

text \<open>\<open>_run\<close>: its value is the string it returns (\<open>ret\<close> after a failed connect,
  otherwise \<open>None\<close>), or the exception that leaves it.\<close>

definition run :: "env \<Rightarrow> world \<Rightarrow> action_item list \<Rightarrow> world \<times> (exn + string option)" where
  "run env w actions =
     (case connect_error env of
        Some ret \<Rightarrow> (emit (LogError ret) w, Inr (Some ret))
      | None \<Rightarrow>
          (case (if actions \<noteq> []
                 then gather env (resume_order env) (emit Connect w) (map Start actions)
                 else (emit Connect w, None)) of
             (w', Some e) \<Rightarrow> (w', Inl e)
           | (w', None) \<Rightarrow> (emit Close (emit Flush w'), Inr None)))"

datatype outcome = Returned string | Raised exn

text \<open>\<open>sync_scheduled_tasks\<close>: the value of \<open>asyncio.run(_run())\<close> is not used, the
  function returns \<open>"ok"\<close> after it.\<close>

definition sync_scheduled_tasks :: "env \<Rightarrow> world \<Rightarrow> world \<times> outcome" where
  "sync_scheduled_tasks env w =
     (if \<not> acquired env then (w, Returned (owner env @ '' still running''))
      else
        (case plan_agents (agent_qs env) of
           Inl e \<Rightarrow> (emit QueryAgents w, Raised e)
         | Inr actions \<Rightarrow>
             (case run env (emit QueryAgents w) actions of
                (w', Inl e) \<Rightarrow> (w', Raised e)
              | (w', Inr ret) \<Rightarrow> (w', Returned ''ok''))))"

subsection \<open>Notions used in the statements\<close>

definition is_request :: "event \<Rightarrow> bool" where
  "is_request e = (case e of Request sub d t \<Rightarrow> True | _ \<Rightarrow> False)"

text \<open>The task is an onboarding task and the agent's version is below 2.6.0.\<close>

definition onboarding_gated :: "agent \<Rightarrow> planned_task \<Rightarrow> bool" where
  "onboarding_gated a pt \<longleftrightarrow>
     task_type (fst pt) = ONBOARDING \<and> pyver_lt (version a) ''2.6.0'' = Inr True"

text \<open>Lines 252 to 255 as one operation: fetch the \<open>TaskResult\<close>, create it when there
  is none.\<close>

definition ensure_result ::
  "world \<Rightarrow> nat option \<Rightarrow> automated_task \<Rightarrow> world \<times> (exn + nat \<times> nat)" where
  "ensure_result w agent task =
     (case aget_result w agent task of
        Inl e \<Rightarrow> acreate_result w agent task
      | Inr key \<Rightarrow> (w, Inr key))"

text \<open>The coroutine from the moment the \<open>TaskResult\<close> is at hand: the request is sent and the
  coroutine runs to its end.\<close>

definition respond ::
  "env \<Rightarrow> world \<Rightarrow> action_item \<Rightarrow> automated_task \<Rightarrow> nat \<times> nat \<Rightarrow> world \<times> (exn + unit)" where
  "respond env w item task key =
     (case send_request w item task key of
        (w', Inl e) \<Rightarrow> (w', Inl e)
      | (w', Inr c) \<Rightarrow> run_coro env w' c)"

subsection \<open>Example data\<close>

text \<open>One Windows agent of version 1.10.0 that is online, with one daily task of its own
  whose \<open>TaskResult\<close> is \<open>INITIAL\<close>; the lock is free, NATS connects, the agent answers
  \<open>"ok"\<close> and the database accepts every write. The variants: an onboarding task, the row
  awaiting deletion, the task edited after planning, a store without the \<open>TaskResult\<close>,
  and a second planned task whose row is gone from the store.\<close>

definition ex_agent :: agent where
  "ex_agent = \<lparr>agent_pk = 1, agent_id = ''agent-1'', hostname = ''pc-1'',
               version = ''1.10.0'', status = ONLINE, is_posix = False\<rparr>"

definition ex_task :: automated_task where
  "ex_task = \<lparr>task_pk = 7, task_name = ''backup'', win_task_name = ''TacticalRMM_backup'',
              task_type = ORDINARY, task_definition = ''daily'',
              policy = None, task_agent = Some 1\<rparr>"

definition ex_row :: "sync_status \<Rightarrow> task_result" where
  "ex_row s = \<lparr>sync_status = s, other_columns = ''retcode=0''\<rparr>"

definition ex_world :: world where
  "ex_world = \<lparr>agents = [1 \<mapsto> ex_agent], tasks = [7 \<mapsto> ex_task],
               results = [(1, 7) \<mapsto> ex_row INITIAL], trace = []\<rparr>"

definition ex_env :: env where
  "ex_env = \<lparr>acquired = True, owner = ''celery@worker1'',
             agent_qs = [(ex_agent, [(ex_task, Some (ex_row INITIAL))])],
             connect_error = None, reply = (\<lambda>sub d. Some ''ok''),
             write_fault = (\<lambda>k. False), resume_order = []\<rparr>"


definition ex_world_pending :: world where
  "ex_world_pending = ex_world\<lparr>results := [(1, 7) \<mapsto> ex_row PENDING_DELETION]\<rparr>"

definition ex_task_edited :: automated_task where
  "ex_task_edited = ex_task\<lparr>task_definition := ''weekly''\<rparr>"

definition ex_world_new :: world where
  "ex_world_new = ex_world\<lparr>results := Map.empty\<rparr>"



section \<open>Properties\<close>

subsection \<open>The plan\<close>

lemmas pyver_defs = pyver_ge_def pyver_lt_def pyver_parse_def parse_segment_def digit_of_def
  release_key_def

lemma plan_tasks_items:
  "plan_tasks a pts = Inr items \<Longrightarrow>
     items = concat (map (classify a) (filter (\<lambda>pt. \<not> onboarding_gated a pt) pts))"
proof (induction pts arbitrary: items)
  case Nil
  then show ?case by simp
next
  case (Cons pt pts)
  then show ?case
    by (auto simp: plan_task_def onboarding_gated_def split: sum.splits if_splits)
qed

lemma plan_agents_items:
  "plan_agents qs = Inr items \<Longrightarrow>
     items = concat (map (\<lambda>(a, pts).
                if agent_eligible a = Inr True
                then concat (map (classify a) (filter (\<lambda>pt. \<not> onboarding_gated a pt) pts))
                else []) qs)"
proof (induction qs arbitrary: items)
  case Nil
  then show ?case by simp
next
  case (Cons q qs)
  obtain a pts where q: "q = (a, pts)" by (cases q)
  from Cons show ?case unfolding q
    by (auto split: sum.splits if_splits dest: plan_tasks_items)
qed

lemma classify_table:
  "classify agent (task, tr) =
     (let agent_obj = (if policy task \<noteq> None then Some (agent_pk agent) else task_agent task)
      in case map_option sync_status tr of
           None \<Rightarrow> [(''create'', task_pk task, agent_obj, generate_nats_task_payload task,
                      agent_id agent, hostname agent)]
         | Some INITIAL \<Rightarrow> [(''create'', task_pk task, agent_obj,
                      generate_nats_task_payload task, agent_id agent, hostname agent)]
         | Some PENDING_DELETION \<Rightarrow> [(''delete'', task_pk task, agent_obj, EmptyPayload,
                      agent_id agent, hostname agent)]
         | Some NOT_SYNCED \<Rightarrow> [(''modify'', task_pk task, agent_obj,
                      generate_nats_task_payload task, agent_id agent, hostname agent)]
         | Some SYNCED \<Rightarrow> [])"
  by (simp add: classify_def Let_def split: option.splits sync_status.splits)

lemma classify_synced:
  "snd pt = Some x \<Longrightarrow> sync_status x = SYNCED \<Longrightarrow> classify a pt = []"
  by (simp add: classify_def)

lemma all_synced_plan:
  assumes "\<forall>(a, pts) \<in> set qs. \<forall>(t, r) \<in> set pts. \<exists>x. r = Some x \<and> sync_status x = SYNCED"
    and "plan_agents qs = Inr items"
  shows "items = []"
proof -
  have "classify a pt = []" if "(a, pts) \<in> set qs" and "pt \<in> set pts" for a pts pt
  proof -
    from assms(1) that obtain x where "snd pt = Some x" and "sync_status x = SYNCED"
      by (cases pt) fastforce
    then show ?thesis by (rule classify_synced)
  qed
  then have "(if agent_eligible a = Inr True
              then concat (map (classify a) (filter (\<lambda>pt. \<not> onboarding_gated a pt) pts))
              else []) = []" if "(a, pts) \<in> set qs" for a pts
    using that by auto
  with plan_agents_items [OF assms(2)] show ?thesis by auto
qed

lemma is_request_simps [simp]:
  "is_request (Request sub d t)" "\<not> is_request QueryAgents" "\<not> is_request Connect"
  "\<not> is_request (LogDebug p)" "\<not> is_request (LogInfo s)" "\<not> is_request (LogError s)"
  "\<not> is_request Flush" "\<not> is_request Close"
  by (simp_all add: is_request_def)

lemma trace_emit [simp]: "trace (emit e w) = e # trace w"
  by (simp add: emit_def)

lemma run_no_actions:
  "filter is_request (trace (fst (run env w []))) = filter is_request (trace w)"
  by (simp add: run_def split: option.splits)

text \<open>
  C1. For a pair the planner enumerates, the planned operation depends on the sync status
  alone: no \<open>TaskResult\<close> or \<open>INITIAL\<close> gives a create item, \<open>PENDING_DELETION\<close> a delete
  item, \<open>NOT_SYNCED\<close> a modify item, \<open>SYNCED\<close> no item; the plan consists of exactly
  these items for the tasks of the eligible agents that pass the onboarding gate; and a
  cycle in which every pair is \<open>SYNCED\<close> sends no request to any agent.
\<close>

theorem planned_operation_by_sync_status:
  "classify agent (task, tr) =
     (let agent_obj = (if policy task \<noteq> None then Some (agent_pk agent) else task_agent task)
      in case map_option sync_status tr of
           None \<Rightarrow> [(''create'', task_pk task, agent_obj, generate_nats_task_payload task,
                      agent_id agent, hostname agent)]
         | Some INITIAL \<Rightarrow> [(''create'', task_pk task, agent_obj,
                      generate_nats_task_payload task, agent_id agent, hostname agent)]
         | Some PENDING_DELETION \<Rightarrow> [(''delete'', task_pk task, agent_obj, EmptyPayload,
                      agent_id agent, hostname agent)]
         | Some NOT_SYNCED \<Rightarrow> [(''modify'', task_pk task, agent_obj,
                      generate_nats_task_payload task, agent_id agent, hostname agent)]
         | Some SYNCED \<Rightarrow> [])
   \<and> (plan_agents qs = Inr items \<longrightarrow>
        items = concat (map (\<lambda>(a, pts).
                  if agent_eligible a = Inr True
                  then concat (map (classify a)
                                 (filter (\<lambda>pt. \<not> onboarding_gated a pt) pts))
                  else []) qs))
   \<and> ((\<forall>(a, pts) \<in> set (agent_qs env). \<forall>(t, r) \<in> set pts.
          \<exists>x. r = Some x \<and> sync_status x = SYNCED) \<longrightarrow>
        filter is_request (trace (fst (sync_scheduled_tasks env w)))
          = filter is_request (trace w))"
proof (intro conjI impI)
  show "classify agent (task, tr) =
     (let agent_obj = (if policy task \<noteq> None then Some (agent_pk agent) else task_agent task)
      in case map_option sync_status tr of
           None \<Rightarrow> [(''create'', task_pk task, agent_obj, generate_nats_task_payload task,
                      agent_id agent, hostname agent)]
         | Some INITIAL \<Rightarrow> [(''create'', task_pk task, agent_obj,
                      generate_nats_task_payload task, agent_id agent, hostname agent)]
         | Some PENDING_DELETION \<Rightarrow> [(''delete'', task_pk task, agent_obj, EmptyPayload,
                      agent_id agent, hostname agent)]
         | Some NOT_SYNCED \<Rightarrow> [(''modify'', task_pk task, agent_obj,
                      generate_nats_task_payload task, agent_id agent, hostname agent)]
         | Some SYNCED \<Rightarrow> [])"
    by (rule classify_table)
next
  assume "plan_agents qs = Inr items"
  then show "items = concat (map (\<lambda>(a, pts).
                  if agent_eligible a = Inr True
                  then concat (map (classify a)
                                 (filter (\<lambda>pt. \<not> onboarding_gated a pt) pts))
                  else []) qs)"
    by (rule plan_agents_items)
next
  assume synced: "\<forall>(a, pts) \<in> set (agent_qs env). \<forall>(t, r) \<in> set pts.
          \<exists>x. r = Some x \<and> sync_status x = SYNCED"
  show "filter is_request (trace (fst (sync_scheduled_tasks env w)))
          = filter is_request (trace w)"
  proof (cases "plan_agents (agent_qs env)")
    case (Inl e)
    then show ?thesis by (simp add: sync_scheduled_tasks_def)
  next
    case (Inr actions)
    with synced have "actions = []" by (simp add: all_synced_plan)
    with Inr run_no_actions [of env "emit QueryAgents w"] show ?thesis
      by (auto simp: sync_scheduled_tasks_def split: prod.splits sum.splits)
  qed
qed

theorem planned_operation_by_sync_status_witness:
  "plan_agents [(ex_agent, [(ex_task, None), (ex_task, Some (ex_row NOT_SYNCED)),
                            (ex_task, Some (ex_row SYNCED))])]
     = Inr [(''create'', 7, Some 1, TaskDescriptor ''TacticalRMM_backup'' ORDINARY ''daily'',
             ''agent-1'', ''pc-1''),
            (''modify'', 7, Some 1, TaskDescriptor ''TacticalRMM_backup'' ORDINARY ''daily'',
             ''agent-1'', ''pc-1'')]
   \<and> map (map (map_option sync_status \<circ> snd) \<circ> snd)
         (agent_qs (ex_env\<lparr>agent_qs := [(ex_agent, [(ex_task, Some (ex_row SYNCED))])]\<rparr>))
       = [[Some SYNCED]]
   \<and> filter is_request (trace (fst (sync_scheduled_tasks
         (ex_env\<lparr>agent_qs := [(ex_agent, [(ex_task, Some (ex_row SYNCED))])]\<rparr>) ex_world))) = []"
  using planned_operation_by_sync_status
    [of ex_agent ex_task "Some (ex_row SYNCED)"
        "[(ex_agent, [(ex_task, None), (ex_task, Some (ex_row NOT_SYNCED)),
                            (ex_task, Some (ex_row SYNCED))])]"
        "[(''create'', 7, Some 1, TaskDescriptor ''TacticalRMM_backup'' ORDINARY ''daily'',
             ''agent-1'', ''pc-1''),
            (''modify'', 7, Some 1, TaskDescriptor ''TacticalRMM_backup'' ORDINARY ''daily'',
             ''agent-1'', ''pc-1'')]"
        "ex_env\<lparr>agent_qs := [(ex_agent, [(ex_task, Some (ex_row SYNCED))])]\<rparr>" ex_world]
  by (simp add: ex_env_def ex_world_def ex_agent_def ex_task_def ex_row_def
        agent_eligible_def plan_task_def classify_def generate_nats_task_payload_def
        pyver_defs)




subsection \<open>The lock and the returned string\<close>

text \<open>
  C6. When the lock is not acquired the function returns \<open>"<owner> still running"\<close> at
  once: the agents are not queried, no request is sent and no row is written (the world
  is returned as it was).
\<close>

theorem lock_not_acquired_returns_immediately:
  "\<not> acquired env \<Longrightarrow>
     sync_scheduled_tasks env w = (w, Returned (owner env @ '' still running''))"
  by (simp add: sync_scheduled_tasks_def)

theorem lock_not_acquired_returns_immediately_witness:
  "sync_scheduled_tasks (ex_env\<lparr>acquired := False\<rparr>) ex_world
     = (ex_world, Returned ''celery@worker1 still running'')"
  using lock_not_acquired_returns_immediately [of "ex_env\<lparr>acquired := False\<rparr>" ex_world]
  by (simp add: ex_env_def)

text \<open>
  C7. The claim has the function return the connect error message when \<open>nats.connect\<close>
  fails. \<open>_run\<close> does return that message, but \<open>sync_scheduled_tasks\<close> drops the value of
  \<open>asyncio.run(_run())\<close> and returns \<open>"ok"\<close>: evaluated here for a refused connection.
\<close>

theorem connect_failure_still_returns_ok:
  "sync_scheduled_tasks (ex_env\<lparr>connect_error := Some ''nats: no servers available''\<rparr>) ex_world
     = (ex_world\<lparr>trace := [LogError ''nats: no servers available'', QueryAgents]\<rparr>,
        Returned ''ok'')
   \<and> run (ex_env\<lparr>connect_error := Some ''nats: no servers available''\<rparr>)
        (emit QueryAgents ex_world)
        [(''create'', 7, Some 1, TaskDescriptor ''TacticalRMM_backup'' ORDINARY ''daily'',
          ''agent-1'', ''pc-1'')]
     = (ex_world\<lparr>trace := [LogError ''nats: no servers available'', QueryAgents]\<rparr>,
        Inr (Some ''nats: no servers available''))"
  by (simp add: sync_scheduled_tasks_def run_def emit_def ex_env_def ex_world_def ex_agent_def
        ex_task_def ex_row_def agent_eligible_def plan_task_def classify_def
        generate_nats_task_payload_def pyver_defs)

subsection \<open>One action handled on its own\<close>

text \<open>The coroutine unrolled: what \<open>_handle_task_on_agent\<close> does when no other coroutine
  runs in between.\<close>

lemma run_coro_Done: "run_coro env w Done = (w, Inr ())"
  by (simp add: run_coro.simps)

lemma run_coro_step:
  "c \<noteq> Done \<Longrightarrow> run_coro env w c =
     (case step env w c of (w', Inl e) \<Rightarrow> (w', Inl e) | (w', Inr c') \<Rightarrow> run_coro env w' c')"
  by (subst run_coro.simps) simp

lemma run_coro_Saving:
  "run_coro env w (Saving (action, tid, agent, payload, subject, host) task key s r) =
     (if action = ''create'' \<or> action = ''modify''
      then asave_sync_status env w key s
      else (emit (LogError (unable_msg action (task_name task) host r))
              (fst (asave_sync_status env w key s)), Inr ()))"
  by (auto simp: run_coro_step run_coro_Done on_save_def split: prod.splits sum.splits)

lemma run_coro_Deleting:
  "run_coro env w (Deleting (action, tid, agent, payload, subject, host) task) =
     (emit (LogInfo (deleted_msg (task_name task) host)) (adelete_task w task), Inr ())"
  by (simp add: run_coro_step run_coro_Done)

lemma run_coro_AwaitReply:
  "run_coro env w (AwaitReply (action, tid, agent, payload, subject, host) task key data) =
     (let r = a_nats_cmd_result env subject data in
      if action = ''create'' \<or> action = ''modify'' then
        (if r \<noteq> ''ok'' then
           asave_sync_status env
             (emit (LogError (unable_msg action (task_name task) host r)) w) key
             (if action = ''create'' then INITIAL else NOT_SYNCED)
         else
           asave_sync_status env
             (emit (LogInfo (done_msg action (task_name task) host)) w) key SYNCED)
      else
        (if r \<noteq> ''ok'' \<and> \<not> str_contains ''The system cannot find the file specified'' r
         then (emit (LogError (unable_msg action (task_name task) host r))
                 (fst (asave_sync_status env w key PENDING_DELETION)), Inr ())
         else (emit (LogInfo (deleted_msg (task_name task) host)) (adelete_task w task),
               Inr ())))"
  by (simp add: run_coro_step on_reply_def Let_def run_coro_Saving run_coro_Deleting)

lemma handle_task_on_agent_unfold:
  "handle_task_on_agent env w (action, tid, agent, payload, subject, host) =
     (case aget_task w tid of
        Inl e \<Rightarrow> (w, Inl e)
      | Inr task \<Rightarrow>
          (case ensure_result w agent task of
             (w1, Inl e) \<Rightarrow> (w1, Inl e)
           | (w1, Inr key) \<Rightarrow>
               respond env w1 (action, tid, agent, payload, subject, host) task key))"
  by (simp add: handle_task_on_agent_def run_coro_step ensure_result_def respond_def
        split: sum.splits prod.splits)

lemma respond_create_modify:
  assumes "action = ''create'' \<or> action = ''modify''"
  shows "respond env w (action, tid, agent, payload, subject, host) task key =
     (let data = \<lparr>func = ''schedtask'', schedtaskpayload = payload\<rparr>;
          w2 = emit (Request subject data 10) (emit (LogDebug payload) w);
          r = a_nats_cmd_result env subject data
      in if r \<noteq> ''ok'' then
           asave_sync_status env
             (emit (LogError (unable_msg action (task_name task) host r)) w2) key
             (if action = ''create'' then INITIAL else NOT_SYNCED)
         else
           asave_sync_status env
             (emit (LogInfo (done_msg action (task_name task) host)) w2) key SYNCED)"
  using assms by (simp add: respond_def send_request_def Let_def run_coro_AwaitReply)

lemma respond_delete:
  assumes "\<not> (action = ''create'' \<or> action = ''modify'')"
  shows "respond env w (action, tid, agent, payload, subject, host) task key =
     (let data = \<lparr>func = ''delschedtask'', schedtaskpayload = NameOnly (win_task_name task)\<rparr>;
          w2 = emit (Request subject data 10) w;
          r = a_nats_cmd_result env subject data
      in if r \<noteq> ''ok'' \<and> \<not> str_contains ''The system cannot find the file specified'' r
         then (emit (LogError (unable_msg action (task_name task) host r))
                 (fst (asave_sync_status env w2 key PENDING_DELETION)), Inr ())
         else (emit (LogInfo (deleted_msg (task_name task) host)) (adelete_task w2 task),
               Inr ()))"
  using assms by (simp add: respond_def send_request_def Let_def run_coro_AwaitReply)

lemma ensure_result_row:
  assumes "ensure_result w agent task = (w1, Inr key)"
  shows "\<exists>a row. agent = Some a \<and> key = (a, task_pk task) \<and> results w1 key = Some row
           \<and> agents w1 = agents w \<and> tasks w1 = tasks w \<and> trace w1 = trace w
           \<and> (\<forall>k. k \<noteq> key \<longrightarrow> results w1 k = results w k)
           \<and> (case results w key of
                 Some row0 \<Rightarrow> w1 = w
               | None \<Rightarrow> row = \<lparr>sync_status = INITIAL, other_columns = []\<rparr>)"
  using assms
  by (auto simp: ensure_result_def aget_result_def acreate_result_def
           split: option.splits sum.splits if_splits)

lemma ensure_result_fail:
  assumes "ensure_result w agent task = (w1, Inl e)"
  shows "w1 = w"
  using assms
  by (auto simp: ensure_result_def aget_result_def acreate_result_def
           split: option.splits sum.splits if_splits)

lemma asave_simps [simp]:
  "tasks (fst (asave_sync_status env w key s)) = tasks w"
  "agents (fst (asave_sync_status env w key s)) = agents w"
  "trace (fst (asave_sync_status env w key s)) = trace w"
  by (simp_all add: asave_sync_status_def split: option.splits)

lemma emit_simps [simp]:
  "tasks (emit e w) = tasks w" "agents (emit e w) = agents w" "results (emit e w) = results w"
  by (simp_all add: emit_def)

lemma asave_emit:
  "asave_sync_status env (emit e w) key s =
     (emit e (fst (asave_sync_status env w key s)), snd (asave_sync_status env w key s))"
  by (simp add: asave_sync_status_def emit_def split: option.splits)

lemma asave_results:
  "results w key = Some row \<Longrightarrow>
     asave_sync_status env w key s =
       (if write_fault env key then (w, Inl DatabaseError)
        else (w\<lparr>results := (results w)(key \<mapsto> row\<lparr>sync_status := s\<rparr>)\<rparr>, Inr ()))"
  by (simp add: asave_sync_status_def)

lemma run_coro_Start: "run_coro env w (Start item) = handle_task_on_agent env w item"
  by (simp add: handle_task_on_agent_def)

lemmas ex_defs = ex_env_def ex_world_def ex_agent_def ex_task_def ex_row_def
lemmas plan_defs = agent_eligible_def plan_task_def classify_def generate_nats_task_payload_def
lemmas db_defs = aget_task_def aget_result_def acreate_result_def asave_sync_status_def
  adelete_task_def ensure_result_def a_nats_cmd_result_def
lemmas cycle_defs = sync_scheduled_tasks_def run_def gather_def run_coro_Start
  handle_task_on_agent_unfold

lemma adelete_simps [simp]:
  "tasks (adelete_task w task) (task_pk task) = None"
  "results (adelete_task w task) (a, task_pk task) = None"
  "agents (adelete_task w task) = agents w"
  by (simp_all add: adelete_task_def)

lemma respond_requests:
  "filter is_request (trace (fst (respond env w (action, tid, agent, payload, subject, host) task key)))
     = Request subject
         (if action = ''create'' \<or> action = ''modify''
          then \<lparr>func = ''schedtask'', schedtaskpayload = payload\<rparr>
          else \<lparr>func = ''delschedtask'', schedtaskpayload = NameOnly (win_task_name task)\<rparr>) 10
       # filter is_request (trace w)"
proof (cases "action = ''create'' \<or> action = ''modify''")
  case True
  then show ?thesis
    by (simp add: respond_create_modify Let_def asave_emit)
next
  case False
  then show ?thesis
    by (simp add: respond_delete Let_def asave_emit emit_def adelete_task_def)
qed




text \<open>
  C4, as amended. For a delete action, the reply \<open>"ok"\<close>, or a reply that contains
  \<open>The system cannot find the file specified\<close> (this whole phrase, in this spelling),
  counts as success: the handler returns, and the task and its \<open>TaskResult\<close> are gone
  from the store.
\<close>

theorem delete_acknowledged_removes_task:
  assumes del: "\<not> (action = ''create'' \<or> action = ''modify'')"
    and task: "aget_task w tid = Inr task"
    and res: "ensure_result w agent task = (w1, Inr key)"
    and ok: "a_nats_cmd_result env subject
               \<lparr>func = ''delschedtask'', schedtaskpayload = NameOnly (win_task_name task)\<rparr> = r"
      "r = ''ok'' \<or> str_contains ''The system cannot find the file specified'' r"
  shows "snd (handle_task_on_agent env w (action, tid, agent, payload, subject, host)) = Inr ()
    \<and> tasks (fst (handle_task_on_agent env w (action, tid, agent, payload, subject, host)))
         (task_pk task) = None
    \<and> results (fst (handle_task_on_agent env w (action, tid, agent, payload, subject, host)))
         key = None"
proof -
  from ensure_result_row [OF res] obtain a where key: "key = (a, task_pk task)"
    by blast
  have out: "handle_task_on_agent env w (action, tid, agent, payload, subject, host)
               = respond env w1 (action, tid, agent, payload, subject, host) task key"
    by (simp add: handle_task_on_agent_unfold task res)
  show ?thesis
    using ok by (auto simp: out respond_delete [OF del] Let_def key)
qed

theorem delete_acknowledged_removes_task_witness:
  "aget_task ex_world_pending 7 = Inr ex_task
   \<and> ensure_result ex_world_pending (Some 1) ex_task = (ex_world_pending, Inr (1, 7))
   \<and> str_contains ''The system cannot find the file specified''
      ''Error: The system cannot find the file specified''
   \<and> snd (handle_task_on_agent
        (ex_env\<lparr>reply := (\<lambda>sub d. Some ''Error: The system cannot find the file specified'')\<rparr>)
        ex_world_pending (''delete'', 7, Some 1, EmptyPayload, ''agent-1'', ''pc-1'')) = Inr ()
   \<and> tasks (fst (handle_task_on_agent
        (ex_env\<lparr>reply := (\<lambda>sub d. Some ''Error: The system cannot find the file specified'')\<rparr>)
        ex_world_pending (''delete'', 7, Some 1, EmptyPayload, ''agent-1'', ''pc-1''))) 7 = None
   \<and> results (fst (handle_task_on_agent
        (ex_env\<lparr>reply := (\<lambda>sub d. Some ''Error: The system cannot find the file specified'')\<rparr>)
        ex_world_pending (''delete'', 7, Some 1, EmptyPayload, ''agent-1'', ''pc-1''))) (1, 7)
       = None"
  using delete_acknowledged_removes_task
      [of "''delete''" ex_world_pending 7 ex_task "Some 1" ex_world_pending "(1, 7)"
          "ex_env\<lparr>reply := (\<lambda>sub d. Some ''Error: The system cannot find the file specified'')\<rparr>"
          "''agent-1''" "''Error: The system cannot find the file specified''"
          EmptyPayload "''pc-1''"]
  by (simp add: ex_defs ex_world_pending_def db_defs)

text \<open>C4 as stated fails: a reply that contains \<open>cannot find the file specified\<close> but
  not the whole phrase is a failure; the task and the row stay, the row as
  \<open>PENDING_DELETION\<close>.\<close>

theorem delete_reply_with_other_wording_is_failure:
  "str_contains ''cannot find the file specified'' ''ERROR: cannot find the file specified''
   \<and> snd (handle_task_on_agent
        (ex_env\<lparr>reply := (\<lambda>sub d. Some ''ERROR: cannot find the file specified'')\<rparr>)
        ex_world_pending (''delete'', 7, Some 1, EmptyPayload, ''agent-1'', ''pc-1'')) = Inr ()
   \<and> tasks (fst (handle_task_on_agent
        (ex_env\<lparr>reply := (\<lambda>sub d. Some ''ERROR: cannot find the file specified'')\<rparr>)
        ex_world_pending (''delete'', 7, Some 1, EmptyPayload, ''agent-1'', ''pc-1''))) 7
       = Some ex_task
   \<and> results (fst (handle_task_on_agent
        (ex_env\<lparr>reply := (\<lambda>sub d. Some ''ERROR: cannot find the file specified'')\<rparr>)
        ex_world_pending (''delete'', 7, Some 1, EmptyPayload, ''agent-1'', ''pc-1''))) (1, 7)
       = Some (ex_row PENDING_DELETION)
   \<and> trace (fst (handle_task_on_agent
        (ex_env\<lparr>reply := (\<lambda>sub d. Some ''ERROR: cannot find the file specified'')\<rparr>)
        ex_world_pending (''delete'', 7, Some 1, EmptyPayload, ''agent-1'', ''pc-1'')))
       = [LogError ''Unable to delete scheduled task backup on pc-1: ERROR: cannot find the file specified'',
          Request ''agent-1'' \<lparr>func = ''delschedtask'',
            schedtaskpayload = NameOnly ''TacticalRMM_backup''\<rparr> 10]"
  by (simp add: ex_defs ex_world_pending_def db_defs handle_task_on_agent_unfold respond_delete
        emit_def unable_msg_def)

text \<open>
  C5. For a delete action whose reply is neither \<open>"ok"\<close> nor a task-not-found message,
  the status is set to \<open>PENDING_DELETION\<close> and saved; when the database refuses the save
  the error is swallowed, the row stays as it was and the handler still returns; in
  both cases the failure is logged and the task is not deleted.
\<close>

theorem delete_failure_keeps_task:
  assumes del: "\<not> (action = ''create'' \<or> action = ''modify'')"
    and task: "aget_task w tid = Inr task"
    and res: "ensure_result w agent task = (w1, Inr key)"
    and failed: "a_nats_cmd_result env subject
               \<lparr>func = ''delschedtask'', schedtaskpayload = NameOnly (win_task_name task)\<rparr> = r"
      "r \<noteq> ''ok''" "\<not> str_contains ''The system cannot find the file specified'' r"
  shows "\<exists>row. results w1 key = Some row \<and>
     (let out = handle_task_on_agent env w (action, tid, agent, payload, subject, host)
      in snd out = Inr ()
         \<and> tasks (fst out) = tasks w \<and> tasks (fst out) tid = Some task
         \<and> LogError (unable_msg action (task_name task) host r) \<in> set (trace (fst out))
         \<and> (\<not> write_fault env key \<longrightarrow>
               results (fst out) = (results w1)(key \<mapsto> row\<lparr>sync_status := PENDING_DELETION\<rparr>))
         \<and> (write_fault env key \<longrightarrow> results (fst out) = results w1))"
proof -
  from ensure_result_row [OF res] obtain row where row: "results w1 key = Some row"
    and tasks: "tasks w1 = tasks w"
    by blast
  from task have t: "tasks w tid = Some task"
    by (simp add: aget_task_def split: option.splits)
  have out: "handle_task_on_agent env w (action, tid, agent, payload, subject, host)
               = respond env w1 (action, tid, agent, payload, subject, host) task key"
    by (simp add: handle_task_on_agent_unfold task res)
  show ?thesis
    using row failed tasks t
    by (auto simp: out respond_delete [OF del] Let_def asave_emit asave_results)
qed

theorem delete_failure_keeps_task_witness:
  "aget_task ex_world 7 = Inr ex_task
   \<and> ensure_result ex_world (Some 1) ex_task = (ex_world, Inr (1, 7))
   \<and> \<not> str_contains ''The system cannot find the file specified'' ''access is denied''
   \<and> \<not> str_contains ''The system cannot find the file specified'' ''timeout''
   \<and> handle_task_on_agent (ex_env\<lparr>reply := (\<lambda>sub d. Some ''access is denied'')\<rparr>)
        ex_world (''delete'', 7, Some 1, EmptyPayload, ''agent-1'', ''pc-1'')
     = (ex_world\<lparr>results := [(1, 7) \<mapsto> ex_row PENDING_DELETION],
          trace := [LogError ''Unable to delete scheduled task backup on pc-1: access is denied'',
           Request ''agent-1'' \<lparr>func = ''delschedtask'',
              schedtaskpayload = NameOnly ''TacticalRMM_backup''\<rparr> 10]\<rparr>, Inr ())
   \<and> handle_task_on_agent
        (ex_env\<lparr>reply := (\<lambda>sub d. None), write_fault := (\<lambda>k. True)\<rparr>)
        ex_world (''delete'', 7, Some 1, EmptyPayload, ''agent-1'', ''pc-1'')
     = (ex_world\<lparr>trace :=
          [LogError ''Unable to delete scheduled task backup on pc-1: timeout'',
           Request ''agent-1'' \<lparr>func = ''delschedtask'',
              schedtaskpayload = NameOnly ''TacticalRMM_backup''\<rparr> 10]\<rparr>, Inr ())"
  using delete_failure_keeps_task
      [of "''delete''" ex_world 7 ex_task "Some 1" ex_world "(1, 7)"
          "ex_env\<lparr>reply := (\<lambda>sub d. Some ''access is denied'')\<rparr>"
          "''agent-1''" "''access is denied''" EmptyPayload "''pc-1''"]
    delete_failure_keeps_task
      [of "''delete''" ex_world 7 ex_task "Some 1" ex_world "(1, 7)"
          "ex_env\<lparr>reply := (\<lambda>sub d. None), write_fault := (\<lambda>k. True)\<rparr>"
          "''agent-1''" "''timeout''" EmptyPayload "''pc-1''"]
  by (simp add: ex_defs db_defs handle_task_on_agent_unfold respond_delete emit_def
        unable_msg_def)

text \<open>
  C8, as amended. The descriptor sent for a create or modify action is the payload of
  the action tuple, which the planning loop generated from the task as the planner read
  it; the handler sends that payload whatever the task's row holds at dispatch, so an
  edit made between planning and dispatch is not in the payload sent in that cycle.
\<close>

theorem payload_sent_is_the_planned_one:
  "(item \<in> set (classify a (task, tr)) \<and> fst item \<noteq> ''delete'' \<longrightarrow>
      fst (snd (snd (snd item))) = generate_nats_task_payload task)
   \<and> (action = ''create'' \<or> action = ''modify'' \<longrightarrow>
        filter is_request
          (trace (fst (handle_task_on_agent env w (action, tid, agent, payload, subject, host))))
          = filter is_request (trace w)
      \<or> filter is_request
          (trace (fst (handle_task_on_agent env w (action, tid, agent, payload, subject, host))))
          = Request subject \<lparr>func = ''schedtask'', schedtaskpayload = payload\<rparr> 10
              # filter is_request (trace w))"
proof (intro conjI impI)
  assume "item \<in> set (classify a (task, tr)) \<and> fst item \<noteq> ''delete''"
  then show "fst (snd (snd (snd item))) = generate_nats_task_payload task"
    by (auto simp: classify_def Let_def split: option.splits if_splits)
next
  assume cm: "action = ''create'' \<or> action = ''modify''"
  show "filter is_request
          (trace (fst (handle_task_on_agent env w (action, tid, agent, payload, subject, host))))
          = filter is_request (trace w)
      \<or> filter is_request
          (trace (fst (handle_task_on_agent env w (action, tid, agent, payload, subject, host))))
          = Request subject \<lparr>func = ''schedtask'', schedtaskpayload = payload\<rparr> 10
              # filter is_request (trace w)"
  proof (cases "aget_task w tid")
    case (Inl e)
    then show ?thesis by (simp add: handle_task_on_agent_unfold)
  next
    case (Inr task)
    obtain w1 res where er: "ensure_result w agent task = (w1, res)"
      by (cases "ensure_result w agent task")
    show ?thesis
    proof (cases res)
      case (Inl e)
      with er ensure_result_fail [of w agent task w1 e] Inr show ?thesis
        by (simp add: handle_task_on_agent_unfold)
    next
      case key: (Inr key)
      with er ensure_result_row [of w agent task w1 key] have "trace w1 = trace w"
        by auto
      with er key Inr cm show ?thesis
        by (simp add: handle_task_on_agent_unfold respond_requests)
    qed
  qed
qed

theorem payload_sent_is_the_planned_one_witness:
  "classify ex_agent (ex_task, None)
     = [(''create'', 7, Some 1, TaskDescriptor ''TacticalRMM_backup'' ORDINARY ''daily'',
         ''agent-1'', ''pc-1'')]
   \<and> fst (snd (snd (snd (''create'', 7 :: nat, Some (1 :: nat),
       TaskDescriptor ''TacticalRMM_backup'' ORDINARY ''daily'', ''agent-1'', ''pc-1''))))
     = generate_nats_task_payload ex_task
   \<and> filter is_request (trace (fst (handle_task_on_agent ex_env
         (ex_world\<lparr>tasks := [7 \<mapsto> ex_task_edited]\<rparr>)
         (''create'', 7, Some 1, generate_nats_task_payload ex_task, ''agent-1'', ''pc-1''))))
     = [Request ''agent-1'' \<lparr>func = ''schedtask'',
          schedtaskpayload = generate_nats_task_payload ex_task\<rparr> 10]"
  using payload_sent_is_the_planned_one
      [of "(''create'', 7, Some 1, TaskDescriptor ''TacticalRMM_backup'' ORDINARY ''daily'',
            ''agent-1'', ''pc-1'')" ex_agent ex_task None "''create''" ex_env
          "ex_world\<lparr>tasks := [7 \<mapsto> ex_task_edited]\<rparr>" 7 "Some 1"
          "generate_nats_task_payload ex_task" "''agent-1''" "''pc-1''"]
  by (simp add: ex_defs ex_task_edited_def db_defs plan_defs handle_task_on_agent_unfold
        respond_create_modify emit_def done_msg_def)

text \<open>C8 as stated fails: the task is planned with the definition \<open>daily\<close> and edited to
  \<open>weekly\<close> before dispatch; the request carries the descriptor of \<open>daily\<close>, not the one
  the task's current row generates.\<close>

theorem payload_not_regenerated_at_dispatch:
  "plan_agents (agent_qs ex_env)
     = Inr [(''create'', 7, Some 1, generate_nats_task_payload ex_task, ''agent-1'', ''pc-1'')]
   \<and> aget_task (ex_world\<lparr>tasks := [7 \<mapsto> ex_task_edited]\<rparr>) 7 = Inr ex_task_edited
   \<and> filter is_request
        (trace (fst (sync_scheduled_tasks ex_env (ex_world\<lparr>tasks := [7 \<mapsto> ex_task_edited]\<rparr>))))
     = [Request ''agent-1'' \<lparr>func = ''schedtask'',
          schedtaskpayload = TaskDescriptor ''TacticalRMM_backup'' ORDINARY ''daily''\<rparr> 10]
   \<and> generate_nats_task_payload ex_task_edited
     = TaskDescriptor ''TacticalRMM_backup'' ORDINARY ''weekly''"
  by (simp add: ex_defs ex_task_edited_def db_defs plan_defs pyver_defs cycle_defs
        respond_create_modify emit_def done_msg_def)

text \<open>
  C10, as amended. Handling a create or modify action leaves the agent and task rows as
  they were and changes at most the \<open>TaskResult\<close> row of the action's agent and task: a
  row that exists keeps every column but \<open>sync_status\<close>; when there is none, the handler
  inserts one with default columns, and only its \<open>sync_status\<close> may differ from the
  default afterwards.
\<close>

theorem create_modify_writes_only_sync_status:
  assumes cm: "action = ''create'' \<or> action = ''modify''"
  shows "(let w' = fst (handle_task_on_agent env w (action, tid, agent, payload, subject, host))
      in agents w' = agents w \<and> tasks w' = tasks w
         \<and> (\<forall>k. results w' k \<noteq> results w k \<longrightarrow>
               (\<exists>a task. agent = Some a \<and> aget_task w tid = Inr task \<and> k = (a, task_pk task)
                  \<and> (case results w k of
                        Some row \<Rightarrow> \<exists>s. results w' k = Some (row\<lparr>sync_status := s\<rparr>)
                      | None \<Rightarrow>
                          \<exists>s. results w' k = Some \<lparr>sync_status = s, other_columns = []\<rparr>))))"
proof (cases "aget_task w tid")
  case (Inl e)
  then show ?thesis by (simp add: handle_task_on_agent_unfold)
next
  case (Inr task)
  obtain w1 res where er: "ensure_result w agent task = (w1, res)"
    by (cases "ensure_result w agent task")
  show ?thesis
  proof (cases res)
    case (Inl e)
    with er ensure_result_fail [of w agent task w1 e] Inr show ?thesis
      by (simp add: handle_task_on_agent_unfold)
  next
    case key: (Inr key)
    from er key ensure_result_row [of w agent task w1 key]
    obtain a row where a: "agent = Some a" "key = (a, task_pk task)"
      and row: "results w1 key = Some row"
      and same: "agents w1 = agents w" "tasks w1 = tasks w"
        "\<forall>k. k \<noteq> key \<longrightarrow> results w1 k = results w k"
      and old: "case results w key of Some row0 \<Rightarrow> w1 = w
                | None \<Rightarrow> row = \<lparr>sync_status = INITIAL, other_columns = []\<rparr>"
      by auto
    have out: "handle_task_on_agent env w (action, tid, agent, payload, subject, host)
               = respond env w1 (action, tid, agent, payload, subject, host) task key"
      by (simp add: handle_task_on_agent_unfold Inr er key)
    have fr: "agents (fst (respond env w1 (action, tid, agent, payload, subject, host) task key))
                = agents w"
      "tasks (fst (respond env w1 (action, tid, agent, payload, subject, host) task key))
                = tasks w"
      using same by (simp_all add: respond_create_modify [OF cm] Let_def)
    have rs: "\<exists>s. results (fst (respond env w1 (action, tid, agent, payload, subject, host) task key))
                = (results w1)(key \<mapsto> row\<lparr>sync_status := s\<rparr>)
              \<or> results (fst (respond env w1 (action, tid, agent, payload, subject, host) task key))
                = results w1"
      using row by (auto simp: respond_create_modify [OF cm] Let_def asave_emit asave_results)
    show ?thesis
      unfolding Let_def out
    proof (intro conjI allI impI)
      fix k
      assume diff: "results (fst (respond env w1 (action, tid, agent, payload, subject, host) task key)) k
                      \<noteq> results w k"
      have k: "k = key"
      proof (rule ccontr)
        assume ne: "k \<noteq> key"
        with same(3) have "results w1 k = results w k" by blast
        moreover from rs ne
        have "results (fst (respond env w1 (action, tid, agent, payload, subject, host) task key)) k
                = results w1 k"
          by auto
        ultimately show False using diff by simp
      qed
      have "case results w key of
              Some row \<Rightarrow> \<exists>s. results (fst (respond env w1
                   (action, tid, agent, payload, subject, host) task key)) key
                   = Some (row\<lparr>sync_status := s\<rparr>)
            | None \<Rightarrow> \<exists>s. results (fst (respond env w1
                   (action, tid, agent, payload, subject, host) task key)) key
                   = Some \<lparr>sync_status = s, other_columns = []\<rparr>"
      proof (cases "results w key")
        case None
        with old have "row = \<lparr>sync_status = INITIAL, other_columns = []\<rparr>" by simp
        with rs row None show ?thesis by auto
      next
        case (Some row0)
        with old have "w1 = w" by simp
        with rs row Some diff k show ?thesis by auto
      qed
      with a Inr k
      show "\<exists>a task'. agent = Some a \<and> aget_task w tid = Inr task' \<and> k = (a, task_pk task')
              \<and> (case results w k of
                    Some row \<Rightarrow> \<exists>s. results (fst (respond env w1
                       (action, tid, agent, payload, subject, host) task key)) k
                       = Some (row\<lparr>sync_status := s\<rparr>)
                  | None \<Rightarrow> \<exists>s. results (fst (respond env w1
                       (action, tid, agent, payload, subject, host) task key)) k
                       = Some \<lparr>sync_status = s, other_columns = []\<rparr>)"
        by auto
    qed (simp_all add: fr)
  qed
qed

theorem create_modify_writes_only_sync_status_witness:
  "(let w' = fst (handle_task_on_agent ex_env ex_world
                (''modify'', 7, Some 1, EmptyPayload, ''agent-1'', ''pc-1''))
    in agents w' = agents ex_world \<and> tasks w' = tasks ex_world
       \<and> results w' = [(1, 7) \<mapsto> (ex_row INITIAL)\<lparr>sync_status := SYNCED\<rparr>]
       \<and> results w' (1, 7) \<noteq> results ex_world (1, 7))"
  using create_modify_writes_only_sync_status
      [of "''modify''" ex_env ex_world 7 "Some 1" EmptyPayload "''agent-1''" "''pc-1''"]
  by (simp add: ex_defs db_defs handle_task_on_agent_unfold respond_create_modify emit_def
        done_msg_def Let_def)

text \<open>C10 as stated fails: for a pair without a \<open>TaskResult\<close> the handler does more than
  update \<open>sync_status\<close>, it inserts the row (line 255), also when the request then
  fails.\<close>

theorem create_inserts_missing_task_result:
  "results ex_world_new (1, 7) = None
   \<and> plan_agents [(ex_agent, [(ex_task, None)])]
       = Inr [(''create'', 7, Some 1, generate_nats_task_payload ex_task, ''agent-1'', ''pc-1'')]
   \<and> results (fst (handle_task_on_agent (ex_env\<lparr>reply := (\<lambda>sub d. None)\<rparr>) ex_world_new
        (''create'', 7, Some 1, generate_nats_task_payload ex_task, ''agent-1'', ''pc-1'')))
        (1, 7)
       = Some \<lparr>sync_status = INITIAL, other_columns = []\<rparr>
   \<and> results (fst (sync_scheduled_tasks (ex_env\<lparr>agent_qs := [(ex_agent, [(ex_task, None)])]\<rparr>)
        ex_world_new)) (1, 7)
       = Some \<lparr>sync_status = SYNCED, other_columns = []\<rparr>"
  by (simp add: ex_defs ex_world_new_def db_defs plan_defs pyver_defs cycle_defs
        respond_create_modify emit_def done_msg_def unable_msg_def)

subsection \<open>Exceptions and the other actions of the cycle\<close>







end
